theory Spec2Isabelle
  imports Complex_Main
begin

section \<open>Data model of the menubar application\<close>

text \<open>
  The application object of \<^verbatim>\<open>main.py\<close> (class \<^verbatim>\<open>LocationMenubarApp\<close>) is a record of
  its attributes. Python floats are taken as real numbers: rounding is not part of the model.
  A Python string is the list of the bytes of its UTF-8 encoding, so that every text fits.
  What the program sends to its collaborators (the shell commands that set the volume, the
  notifications, the alert boxes, the geocoding requests, the settings file) is recorded in
  fields of the same record, in the order of emission.
\<close>

type_synonym coord = "real \<times> real"

record target =
  address :: string
  radius :: int

text \<open>
  The two shell commands of the program that change the system mute flag:
  \<^verbatim>\<open>osascript -e 'set volume with output muted'\<close> and
  \<^verbatim>\<open>osascript -e 'set volume without output muted'\<close>.
\<close>

datatype mute_command = Volume_with_output_muted | Volume_without_output_muted

text \<open>
  The titles of the menu items, one constructor for each title that the methods modelled
  below assign.
\<close>

datatype mute_title = Title_mute_mac | Title_unmute_mac

datatype status_title = Title_active | Title_inactive

datatype location_title = Title_unknown | Title_at real real

text \<open>
  The settings file \<^verbatim>\<open>target_locations.json\<close>. Its JSON value is taken at the types the
  program gives its keys: a location is an object with an address and an integer radius,
  \<^verbatim>\<open>check_interval\<close> is an integer and \<^verbatim>\<open>is_active\<close> a boolean; a key may be missing.
  \<open>Json_invalid\<close> is a file that \<^verbatim>\<open>json.load\<close> rejects, \<open>Json_other\<close> a JSON value that is
  neither an array nor an object.
\<close>

record settings_json =
  check_interval :: "int option"
  is_active_json :: "bool option"

datatype file_json =
    Json_list "target list"
  | Json_dict "target list option" "settings_json option"
  | Json_other
  | Json_invalid

record app =
  is_active :: bool
  is_muted :: bool
  inside_target_zone :: bool
  current_location :: "coord option"
  target_locations :: "target list"
  target_location_coords :: "string \<rightharpoonup> coord"
  location_check_interval :: int
  location_delegate_obj :: bool
  status_item_title :: status_title
  location_item_title :: location_title
  mute_item_title :: mute_title
  location_timer :: "int option"
  mute_sync_timer :: bool
  volume_commands :: "mute_command list"
  notifications :: "(string \<times> string) list"
  alerts :: "(string \<times> string) list"
  geocode_requests :: "string list"
  settings_file :: "file_json option"
  notification_raises :: bool

text \<open>
  The last field belongs to the surroundings of the program, as the settings file does:
  \<open>notification_raises\<close> tells whether a call of \<^verbatim>\<open>rumps.notification\<close> raises an exception
  instead of returning. The shell commands are sent with \<^verbatim>\<open>os.system\<close>, which returns the exit
  status of the command and does not raise when the command fails.

  The state that \<^verbatim>\<open>__init__\<close> sets up before it loads the settings (lines 36 to 57), with the
  settings file found on disk as parameter. \<open>location_delegate_obj\<close> is \<open>True\<close> once the delegate
  object exists; \<open>location_timer\<close> holds the delay of the pending poll timer. Notifications are
  taken to work at the start.
\<close>

definition initial_app :: "file_json option \<Rightarrow> app" where
  "initial_app file =
     \<lparr> is_active = False,
       is_muted = False,
       inside_target_zone = False,
       current_location = None,
       target_locations = [],
       target_location_coords = Map.empty,
       location_check_interval = 300,
       location_delegate_obj = False,
       status_item_title = Title_inactive,
       location_item_title = Title_unknown,
       mute_item_title = Title_mute_mac,
       location_timer = None,
       mute_sync_timer = False,
       volume_commands = [],
       notifications = [],
       alerts = [],
       geocode_requests = [],
       settings_file = file,
       notification_raises = False \<rparr>"

section \<open>Strings: \<^verbatim>\<open>strip\<close>, \<^verbatim>\<open>lower\<close> and \<^verbatim>\<open>int\<close>\<close>

text \<open>
  \<^verbatim>\<open>str.strip\<close>, \<^verbatim>\<open>str.lower\<close> and \<^verbatim>\<open>int\<close> belong to the Python library, not to this program.
  The functions of this section are their restrictions to ASCII text: on a text that is all
  ASCII they return what the library returns, and they know no white space, letter or digit
  outside ASCII. They stand for the library where the text is ASCII by its origin, which is
  the output of the shell query in \<^verbatim>\<open>mute_sync_callback\<close>, and in the examples. The dialogs
  return whatever the user types, so \<^verbatim>\<open>add_location\<close> and \<^verbatim>\<open>edit_location\<close> below do not use
  them: they take the two library functions as parameters.

  \<open>py_isspace\<close> holds of the ASCII characters that \<^verbatim>\<open>str.strip\<close> removes: tab, line feed,
  vertical tab, form feed, carriage return, the four separators \<^verbatim>\<open>0x1c\<close> to \<^verbatim>\<open>0x1f\<close> and the
  space.
\<close>

definition py_isspace :: "char \<Rightarrow> bool" where
  "py_isspace c = (let n = (of_char c :: nat) in (9 \<le> n \<and> n \<le> 13) \<or> (28 \<le> n \<and> n \<le> 32))"

definition py_strip :: "string \<Rightarrow> string" where
  "py_strip s = rev (dropWhile py_isspace (rev (dropWhile py_isspace s)))"

definition py_lower_char :: "char \<Rightarrow> char" where
  "py_lower_char c =
     (case map_of (zip ''ABCDEFGHIJKLMNOPQRSTUVWXYZ'' ''abcdefghijklmnopqrstuvwxyz'') c of
        Some l \<Rightarrow> l
      | None \<Rightarrow> c)"

definition py_lower :: "string \<Rightarrow> string" where
  "py_lower s = map py_lower_char s"

definition py_isdigit :: "char \<Rightarrow> bool" where
  "py_isdigit c = (let n = (of_char c :: nat) in 48 \<le> n \<and> n \<le> 57)"

definition digit_value :: "char \<Rightarrow> nat" where
  "digit_value c = (of_char c :: nat) - 48"

text \<open>
  The digits after the first one, read from left to right: a digit, or one underscore
  followed by a digit. \<open>None\<close> is Python's \<^verbatim>\<open>ValueError\<close>.
\<close>

fun py_int_digits :: "nat \<Rightarrow> string \<Rightarrow> nat option" where
  "py_int_digits acc [] = Some acc"
| "py_int_digits acc [c] =
     (if py_isdigit c then Some (10 * acc + digit_value c) else None)"
| "py_int_digits acc (c # d # cs) =
     (if py_isdigit c then py_int_digits (10 * acc + digit_value c) (d # cs)
      else if c = CHR ''_'' \<and> py_isdigit d then py_int_digits (10 * acc + digit_value d) cs
      else None)"

definition py_int_unsigned :: "string \<Rightarrow> nat option" where
  "py_int_unsigned s =
     (case s of
        [] \<Rightarrow> None
      | c # cs \<Rightarrow> if py_isdigit c then py_int_digits (digit_value c) cs else None)"

text \<open>
  \<^verbatim>\<open>int(s)\<close> on an ASCII decimal string: surrounding white space is dropped, one sign is
  allowed. The bound that recent versions of Python put on the number of digits is not
  modelled; the examples read numerals of a few digits.
\<close>

definition py_int :: "string \<Rightarrow> int option" where
  "py_int s =
     (case py_strip s of
        [] \<Rightarrow> None
      | c # cs \<Rightarrow>
          if c = CHR ''-'' then map_option (\<lambda>n. - int n) (py_int_unsigned cs)
          else if c = CHR ''+'' then map_option int (py_int_unsigned cs)
          else map_option int (py_int_unsigned (c # cs)))"

section \<open>Distance Calculator\<close>

definition radians :: "real \<Rightarrow> real" where
  "radians d = d * pi / 180"

text \<open>\<^verbatim>\<open>calculate_distance\<close>: the haversine formula, in meters.\<close>

definition calculate_distance :: "real \<Rightarrow> real \<Rightarrow> real \<Rightarrow> real \<Rightarrow> real" where
  "calculate_distance lat1 lon1 lat2 lon2 =
     (let lat1 = radians lat1; lon1 = radians lon1;
          lat2 = radians lat2; lon2 = radians lon2;
          dlat = lat2 - lat1;
          dlon = lon2 - lon1;
          a = (sin (dlat / 2))\<^sup>2 + cos lat1 * cos lat2 * (sin (dlon / 2))\<^sup>2;
          c = 2 * arcsin (sqrt a);
          r = 6371000
      in c * r)"

section \<open>Operations of the application\<close>

text \<open>
  Each method takes the application state and returns the new one. What a method reads from
  outside (the answer to a dialog, the output of a shell query, the result of a geocode) is a
  parameter. The menus are not part of the state, so \<^verbatim>\<open>update_target_locations_menu\<close> and
  \<^verbatim>\<open>update_interval_menu\<close> have no counterpart here, and writing the settings file always
  succeeds.
\<close>

text \<open>
  \<^verbatim>\<open>geocode_target_location\<close> starts an asynchronous request and returns; the completion
  handler runs later, as \<open>geocode_callback\<close> below.
\<close>

definition geocode_target_location :: "string \<Rightarrow> app \<Rightarrow> app" where
  "geocode_target_location addr s = s\<lparr>geocode_requests := geocode_requests s @ [addr]\<rparr>"

definition mute_title_of :: "bool \<Rightarrow> mute_title" where
  "mute_title_of muted = (if muted then Title_unmute_mac else Title_mute_mac)"

text \<open>
  \<^verbatim>\<open>auto_mute\<close>: inside one \<^verbatim>\<open>try\<close>, the command, then its notification, then the flag and the
  title. When the notification raises, the \<^verbatim>\<open>except\<close> clause prints the error and the method
  returns: the command has been sent, the flag and the title have not been assigned.
\<close>

definition auto_mute :: "bool \<Rightarrow> app \<Rightarrow> app" where
  "auto_mute should_mute s =
     (let s1 =
        (if should_mute
         then s\<lparr>volume_commands := volume_commands s @ [Volume_with_output_muted]\<rparr>
         else s\<lparr>volume_commands := volume_commands s @ [Volume_without_output_muted]\<rparr>)
      in if notification_raises s1 then s1
         else
           (let s2 =
              (if should_mute
               then s1\<lparr>notifications := notifications s1 @
                        [(''Auto Muted'', ''Mac muted - entered target zone'')]\<rparr>
               else s1\<lparr>notifications := notifications s1 @
                        [(''Auto Unmuted'', ''Mac unmuted - left target zone'')]\<rparr>)
            in if is_muted s2 \<noteq> should_mute
               then s2\<lparr>is_muted := should_mute, mute_item_title := mute_title_of should_mute\<rparr>
               else s2))"

text \<open>
  The loop of \<^verbatim>\<open>check_target_locations\<close> over the target list. It returns the value of
  \<^verbatim>\<open>currently_inside_any_target\<close> at the end of the loop and the addresses for which the loop
  asked for a geocode, in order. A target within its radius ends the loop (\<^verbatim>\<open>break\<close>).
\<close>

fun currently_inside_any_target ::
  "(string \<rightharpoonup> coord) \<Rightarrow> real \<Rightarrow> real \<Rightarrow> target list \<Rightarrow> bool \<times> string list" where
  "currently_inside_any_target coords current_lat current_lon [] = (False, [])"
| "currently_inside_any_target coords current_lat current_lon (t # ts) =
     (case coords (address t) of
        Some (target_lat, target_lon) \<Rightarrow>
          if calculate_distance current_lat current_lon target_lat target_lon
               \<le> real_of_int (radius t)
          then (True, [])
          else currently_inside_any_target coords current_lat current_lon ts
      | None \<Rightarrow>
          (let (inside, reqs) = currently_inside_any_target coords current_lat current_lon ts
           in (inside, address t # reqs)))"

definition check_target_locations :: "real \<Rightarrow> real \<Rightarrow> app \<Rightarrow> app" where
  "check_target_locations current_lat current_lon s =
     (if \<not> is_active s then s
      else if target_locations s = [] then s
      else
        (let (inside, reqs) =
               currently_inside_any_target (target_location_coords s)
                 current_lat current_lon (target_locations s);
             s1 = s\<lparr>geocode_requests := geocode_requests s @ reqs,
                    inside_target_zone := inside\<rparr>
         in if inside_target_zone s1
            then (if \<not> is_muted s1 then auto_mute True s1 else s1)
            else (if is_muted s1 then auto_mute False s1 else s1)))"

text \<open>
  \<^verbatim>\<open>location_updated\<close>: a new position fix. The zones are checked only when the delegate
  object exists.
\<close>

definition location_updated :: "coord \<Rightarrow> app \<Rightarrow> app" where
  "location_updated location s =
     (let lat = fst location; lon = snd location;
          s1 = s\<lparr>current_location := Some location, location_item_title := Title_at lat lon\<rparr>
      in if location_delegate_obj s1 then check_target_locations lat lon s1 else s1)"

text \<open>
  What the geocoder hands to the completion handler: an error, or a list of placemarks, each
  with or without a location.
\<close>

datatype geocode_result = Geocode_error | Placemarks "coord option list"

definition geocode_callback :: "string \<Rightarrow> geocode_result \<Rightarrow> app \<Rightarrow> app" where
  "geocode_callback addr res s =
     (case res of
        Geocode_error \<Rightarrow> s
      | Placemarks [] \<Rightarrow> s
      | Placemarks (None # _) \<Rightarrow> s
      | Placemarks (Some (lat, lon) # _) \<Rightarrow>
          (let s1 = s\<lparr>target_location_coords := (target_location_coords s)(addr \<mapsto> (lat, lon))\<rparr>
           in case current_location s1 of
                None \<Rightarrow> s1
              | Some (current_lat, current_lon) \<Rightarrow>
                  if location_delegate_obj s1
                  then check_target_locations current_lat current_lon s1
                  else s1))"

definition start_mute_sync_timer :: "app \<Rightarrow> app" where
  "start_mute_sync_timer s = s\<lparr>mute_sync_timer := True\<rparr>"

text \<open>
  \<^verbatim>\<open>mute_sync_callback\<close>. Its parameter is what the shell query
  \<^verbatim>\<open>output muted of (get volume settings)\<close> printed, \<open>None\<close> when the query raised. The query
  prints ASCII text, on which \<open>py_strip\<close> and \<open>py_lower\<close> are the methods of the library.
\<close>

definition mute_sync_callback :: "string option \<Rightarrow> app \<Rightarrow> app" where
  "mute_sync_callback output s =
     start_mute_sync_timer
       (case output of
          None \<Rightarrow> s
        | Some out \<Rightarrow>
            (let result = py_strip out;
                 system_muted = (py_lower result = ''true'')
             in if is_muted s \<noteq> system_muted
                then s\<lparr>is_muted := system_muted, mute_item_title := mute_title_of system_muted\<rparr>
                else s))"

definition manual_mute_toggle :: "app \<Rightarrow> app" where
  "manual_mute_toggle s =
     (if is_muted s
      then s\<lparr>volume_commands := volume_commands s @ [Volume_without_output_muted]\<rparr>
      else s\<lparr>volume_commands := volume_commands s @ [Volume_with_output_muted]\<rparr>)"

definition stop_location_timer :: "app \<Rightarrow> app" where
  "stop_location_timer s = s\<lparr>location_timer := None\<rparr>"

definition start_location_timer :: "app \<Rightarrow> app" where
  "start_location_timer s =
     (let s1 = stop_location_timer s
      in if is_active s1 then s1\<lparr>location_timer := Some (location_check_interval s1)\<rparr> else s1)"

definition update_status :: "app \<Rightarrow> app" where
  "update_status s =
     (if is_active s then s\<lparr>status_item_title := Title_active\<rparr>
      else s\<lparr>status_item_title := Title_inactive\<rparr>)"

text \<open>The loop at the end of \<^verbatim>\<open>load_target_locations\<close> that geocodes the targets.\<close>

fun geocode_all :: "target list \<Rightarrow> app \<Rightarrow> app" where
  "geocode_all [] s = s"
| "geocode_all (location # rest) s =
     geocode_all rest
       (if target_location_coords s (address location) = None
        then geocode_target_location (address location) s
        else s)"

definition load_target_locations :: "app \<Rightarrow> app" where
  "load_target_locations s =
     (case settings_file s of
        None \<Rightarrow> s
      | Some Json_invalid \<Rightarrow> s\<lparr>target_locations := []\<rparr>
      | Some data \<Rightarrow>
          (let s1 =
             (case data of
                Json_list locations \<Rightarrow> s\<lparr>target_locations := locations\<rparr>
              | Json_dict locations settings \<Rightarrow>
                  (let s2 = s\<lparr>target_locations :=
                               (case locations of None \<Rightarrow> [] | Some l \<Rightarrow> l)\<rparr>;
                       saved_interval =
                         (case settings of
                            None \<Rightarrow> 30
                          | Some st \<Rightarrow> (case check_interval st of None \<Rightarrow> 30 | Some i \<Rightarrow> i));
                       s3 = s2\<lparr>location_check_interval := saved_interval\<rparr>;
                       saved_status =
                         (case settings of
                            None \<Rightarrow> False
                          | Some st \<Rightarrow> (case is_active_json st of None \<Rightarrow> False | Some b \<Rightarrow> b));
                       s4 = update_status (s3\<lparr>is_active := saved_status\<rparr>)
                   in if is_active s4 then start_location_timer s4 else s4)
              | _ \<Rightarrow> s)
           in geocode_all (target_locations s1) s1))"

definition save_target_locations :: "app \<Rightarrow> app" where
  "save_target_locations s =
     s\<lparr>settings_file :=
         Some (Json_dict (Some (target_locations s))
                 (Some \<lparr>check_interval = Some (location_check_interval s),
                        is_active_json = Some (is_active s)\<rparr>))\<rparr>"

text \<open>What a \<^verbatim>\<open>rumps.Window\<close> returns: whether the user confirmed, and the text entered.\<close>

record window_response =
  clicked :: bool
  text_entered :: string

definition alert :: "string \<Rightarrow> string \<Rightarrow> app \<Rightarrow> app" where
  "alert title message s = s\<lparr>alerts := alerts s @ [(title, message)]\<rparr>"

text \<open>
  \<^verbatim>\<open>add_location\<close>, with the answers to its two dialogs as parameters; the second dialog is
  shown only when the first one gave an address. The first two parameters are the library
  functions that the method calls on the text of the dialogs: \<open>strip\<close> is \<^verbatim>\<open>str.strip\<close> and
  \<open>parse_int\<close> is \<^verbatim>\<open>int\<close>, with \<open>None\<close> for its \<^verbatim>\<open>ValueError\<close>. What is proved for all values
  of these parameters holds for the functions of the library, on every text.
\<close>

definition add_location ::
  "(string \<Rightarrow> string) \<Rightarrow> (string \<Rightarrow> int option) \<Rightarrow>
   window_response \<Rightarrow> window_response \<Rightarrow> app \<Rightarrow> app" where
  "add_location strip parse_int address_response radius_response s =
     (if \<not> clicked address_response \<or> strip (text_entered address_response) = [] then s
      else
        (let addr = strip (text_entered address_response)
         in if clicked radius_response
            then
              (case parse_int (strip (text_entered radius_response)) of
                 None \<Rightarrow> alert ''Invalid Input'' ''Radius must be a number'' s
               | Some r \<Rightarrow>
                   if r \<le> 0
                   then alert ''Invalid Input'' ''Radius must be a positive number'' s
                   else
                     save_target_locations
                       (geocode_target_location addr
                          (s\<lparr>target_locations :=
                               target_locations s @ [\<lparr>address = addr, radius = r\<rparr>]\<rparr>)))
            else s))"

text \<open>
  \<^verbatim>\<open>edit_location\<close>, with the index of the menu entry, the button of the first alert (1 is
  Edit, 0 is Delete) and the answers to the two dialogs of the Edit path as parameters. An
  index outside the list raises before anything is changed. \<open>strip\<close> and \<open>parse_int\<close> are the
  library functions, as in \<^verbatim>\<open>add_location\<close>.
\<close>

definition edit_location ::
  "(string \<Rightarrow> string) \<Rightarrow> (string \<Rightarrow> int option) \<Rightarrow>
   nat \<Rightarrow> int \<Rightarrow> window_response \<Rightarrow> window_response \<Rightarrow> app \<Rightarrow> app" where
  "edit_location strip parse_int index action_response address_response radius_response s =
     (if length (target_locations s) \<le> index then s
      else if action_response = 1 then
        (if \<not> clicked address_response \<or> strip (text_entered address_response) = [] then s
         else
           (let addr = strip (text_entered address_response)
            in if clicked radius_response
               then
                 (case parse_int (strip (text_entered radius_response)) of
                    None \<Rightarrow> alert ''Invalid Input'' ''Radius must be a number'' s
                  | Some r \<Rightarrow>
                      if r \<le> 0
                      then alert ''Invalid Input'' ''Radius must be a positive number'' s
                      else
                        (let old_address = address (target_locations s ! index);
                             s1 = s\<lparr>target_locations :=
                                     (target_locations s)[index := \<lparr>address = addr, radius = r\<rparr>]\<rparr>;
                             s2 = (if old_address \<noteq> addr
                                   then geocode_target_location addr
                                          (s1\<lparr>target_location_coords :=
                                                (target_location_coords s1)(old_address := None)\<rparr>)
                                   else s1)
                         in save_target_locations s2))
               else s))
      else if action_response = 0 then
        (let address_to_delete = address (target_locations s ! index);
             s1 = s\<lparr>target_location_coords :=
                     (target_location_coords s)(address_to_delete := None)\<rparr>;
             s2 = s1\<lparr>target_locations :=
                      take index (target_locations s1) @ drop (Suc index) (target_locations s1)\<rparr>
         in save_target_locations s2)
      else s)"

text \<open>
  \<^verbatim>\<open>set_interval_action\<close>: the action of an entry of the interval menu. The notification is
  not inside a \<^verbatim>\<open>try\<close> here: when it raises, the method is left with the interval assigned and
  nothing saved.
\<close>

definition set_interval_action :: "string \<Rightarrow> int \<Rightarrow> app \<Rightarrow> app" where
  "set_interval_action label seconds s =
     (if seconds \<ge> 60
      then
        (let s1 = s\<lparr>location_check_interval := seconds\<rparr>
         in if notification_raises s1 then s1
            else
              (let s2 = s1\<lparr>notifications := notifications s1 @
                             [(''Interval Updated'',
                               ''Location check interval set to '' @ label)]\<rparr>;
                   s3 = save_target_locations s2
               in if is_active s3 then start_location_timer s3 else s3))
      else alert ''Invalid Input''
             ''Interval must be at least 1 minute for optimal battery life.'' s)"

text \<open>A run of position fixes, oldest first.\<close>

fun location_updates :: "coord list \<Rightarrow> app \<Rightarrow> app" where
  "location_updates [] s = s"
| "location_updates (l # ls) s = location_updates ls (location_updated l s)"

section \<open>Two runs of the program used as examples\<close>



section \<open>Auxiliary facts\<close>

lemmas py_string_defs =
  py_strip_def py_isspace_def py_lower_def py_lower_char_def
  py_int_def py_int_unsigned_def py_isdigit_def digit_value_def

subsection \<open>Distances along the equator\<close>

text \<open>
  Between two points of the equator the haversine formula gives the length of the arc: the
  difference of the longitudes in radians, times the radius of the earth.
\<close>

lemma distance_on_equator:
  assumes "\<bar>y - x\<bar> \<le> 180"
  shows "calculate_distance 0 x 0 y = \<bar>y - x\<bar> * pi / 180 * 6371000"
proof -
  let ?h = "\<bar>y - x\<bar> * pi / 360"
  have h0: "0 \<le> ?h" by simp
  have "\<bar>y - x\<bar> * pi \<le> 180 * pi" using assms by (intro mult_right_mono) auto
  then have h1: "?h \<le> pi / 2" by simp
  have h2: "- (pi / 2) \<le> ?h" using h0 pi_ge_zero by linarith
  have s0: "0 \<le> sin ?h" using h0 h1 by (intro sin_ge_zero) (auto intro: order_trans)
  have half: "(y * pi / 180 - x * pi / 180) / 2 = (y - x) * pi / 360"
    by (simp add: field_simps)
  have "(sin ((y - x) * pi / 360))\<^sup>2 = (sin ?h)\<^sup>2"
  proof (cases "0 \<le> y - x")
    case True
    then show ?thesis by simp
  next
    case False
    then have "\<bar>y - x\<bar> = - (y - x)" by simp
    then have "?h = (- (y - x)) * pi / 360" by (simp only:)
    then have "?h = - ((y - x) * pi / 360)" by (simp only: mult_minus_left minus_divide_left)
    then show ?thesis by (simp only: sin_minus power2_minus)
  qed
  then have a: "(sin ((y * pi / 180 - x * pi / 180) / 2))\<^sup>2 = (sin ?h)\<^sup>2"
    by (simp only: half)
  have sq: "sqrt ((sin ?h)\<^sup>2) = sin ?h" using s0 by simp
  have as: "arcsin (sin ?h) = ?h" using h2 h1 by (rule arcsin_sin)
  have "calculate_distance 0 x 0 y
          = 2 * arcsin (sqrt ((sin ((y * pi / 180 - x * pi / 180) / 2))\<^sup>2)) * 6371000"
    by (simp add: calculate_distance_def radians_def)
  also have "\<dots> = 2 * ?h * 6371000" by (simp only: a sq as)
  also have "\<dots> = \<bar>y - x\<bar> * pi / 180 * 6371000" by simp
  finally show ?thesis .
qed



lemma one_degree_east: "\<not> calculate_distance 0 0 0 1 \<le> 100"
  using distance_on_equator [of 1 0] pi_ge_two by simp

lemma hundred_meters_east: "calculate_distance 0 0 0 (18000 / (pi * 6371000)) = 100"
proof -
  have "18000 / (pi * 6371000) \<le> 18000 / (2 * 6371000)"
    using pi_ge_two by (intro divide_left_mono) auto
  then have "\<bar>18000 / (pi * 6371000) - 0\<bar> \<le> 180" by simp
  from distance_on_equator [OF this] show ?thesis by simp
qed

subsection \<open>The loop over the targets\<close>

lemma inside_any_iff:
  "fst (currently_inside_any_target coords lat lon ts) \<longleftrightarrow>
     (\<exists>t\<in>set ts. \<exists>tlat tlon. coords (address t) = Some (tlat, tlon) \<and>
        calculate_distance lat lon tlat tlon \<le> real_of_int (radius t))"
  by (induction ts) (auto split: option.splits prod.splits)

lemma inside_any_first_match:
  assumes "coords (address t) = Some (tlat, tlon)"
    and "calculate_distance lat lon tlat tlon \<le> real_of_int (radius t)"
    and "\<forall>u\<in>set pre. \<forall>ulat ulon. coords (address u) = Some (ulat, ulon) \<longrightarrow>
           \<not> calculate_distance lat lon ulat ulon \<le> real_of_int (radius u)"
  shows "currently_inside_any_target coords lat lon (pre @ t # post) =
           (True, map address (filter (\<lambda>u. coords (address u) = None) pre))"
  using assms by (induction pre) (auto split: option.splits prod.splits)

lemma geocode_all_eq:
  "geocode_all ts s =
     s\<lparr>geocode_requests := geocode_requests s @
          map address (filter (\<lambda>t. target_location_coords s (address t) = None) ts)\<rparr>"
  by (induction ts arbitrary: s) (auto simp: geocode_target_location_def)

subsection \<open>One evaluation cycle\<close>

lemma check_target_locations_frame:
  "is_active (check_target_locations lat lon s) = is_active s"
  "target_locations (check_target_locations lat lon s) = target_locations s"
  "target_location_coords (check_target_locations lat lon s) = target_location_coords s"
  "location_check_interval (check_target_locations lat lon s) = location_check_interval s"
  "settings_file (check_target_locations lat lon s) = settings_file s"
  "current_location (check_target_locations lat lon s) = current_location s"
  "location_delegate_obj (check_target_locations lat lon s) = location_delegate_obj s"
  "notification_raises (check_target_locations lat lon s) = notification_raises s"
  by (simp_all add: check_target_locations_def auto_mute_def Let_def split: prod.splits)

lemma check_inactive: "\<not> is_active s \<Longrightarrow> check_target_locations lat lon s = s"
  by (simp add: check_target_locations_def)

lemma check_no_targets: "target_locations s = [] \<Longrightarrow> check_target_locations lat lon s = s"
  by (simp add: check_target_locations_def)




subsection \<open>Position fixes while the engine is idle\<close>

lemma location_updated_idle:
  "\<not> is_active s \<or> target_locations s = [] \<Longrightarrow>
   location_updated l s =
     s\<lparr>current_location := Some l, location_item_title := Title_at (fst l) (snd l)\<rparr>"
  by (auto simp: location_updated_def check_target_locations_def Let_def)

lemma location_updates_idle:
  "\<not> is_active s \<or> target_locations s = [] \<Longrightarrow>
   is_active (location_updates ls s) = is_active s \<and>
   target_locations (location_updates ls s) = target_locations s \<and>
   is_muted (location_updates ls s) = is_muted s \<and>
   inside_target_zone (location_updates ls s) = inside_target_zone s \<and>
   volume_commands (location_updates ls s) = volume_commands s"
proof (induction ls arbitrary: s)
  case Nil
  show ?case by simp
next
  case (Cons l ls)
  let ?s1 = "s\<lparr>current_location := Some l, location_item_title := Title_at (fst l) (snd l)\<rparr>"
  have step: "location_updated l s = ?s1"
    using Cons.prems by (rule location_updated_idle)
  have "\<not> is_active ?s1 \<or> target_locations ?s1 = []"
    using Cons.prems by simp
  from Cons.IH [OF this] show ?case by (simp add: step)
qed

lemma load_dict_interval:
  "location_check_interval
     (load_target_locations (s\<lparr>settings_file := Some (Json_dict locations settings)\<rparr>)) =
   (case settings of
      None \<Rightarrow> 30
    | Some st \<Rightarrow> (case check_interval st of None \<Rightarrow> 30 | Some i \<Rightarrow> i))"
  by (simp add: load_target_locations_def geocode_all_eq Let_def update_status_def
        start_location_timer_def stop_location_timer_def)

section \<open>The claims\<close>

subsection \<open>C1: the manual mute toggle\<close>

text \<open>
  C1 says that the manual toggle flips \<open>is_muted\<close> and that a manual unmute leaves the flag
  false when the toggle returns. \<^verbatim>\<open>manual_mute_toggle\<close> only sends the command; the flag is
  assigned by \<^verbatim>\<open>auto_mute\<close> and \<^verbatim>\<open>mute_sync_callback\<close> alone. In the run below the
  reconciliation has found the system muted, so \<open>is_muted\<close> is true; the toggle then sends the
  unmute command and \<open>is_muted\<close> is still true afterwards.
\<close>

theorem manual_mute_toggle_keeps_flag:
  "is_muted (mute_sync_callback (Some ''true'') (initial_app None)) \<and>
   is_muted (manual_mute_toggle (mute_sync_callback (Some ''true'') (initial_app None))) \<and>
   volume_commands (manual_mute_toggle (mute_sync_callback (Some ''true'') (initial_app None)))
     = [Volume_without_output_muted]"
  by (simp add: manual_mute_toggle_def mute_sync_callback_def start_mute_sync_timer_def
        initial_app_def mute_title_of_def py_string_defs)

subsection \<open>C2: a geocode completion for an address that is gone\<close>

text \<open>
  C2 says that the completion handler drops the result when the address is no longer in the
  target list. The handler has no such test. In the run below the program starts on a file
  with the target Home, which requests the geocode; the user deletes the target; the
  completion arrives: the target list is empty and the coordinate map has an entry for Home.
\<close>

theorem stale_geocode_counterexample:
  "target_locations
     (geocode_callback ''Home'' (Placemarks [Some (48, 11)])
        (edit_location py_strip py_int 0 0 \<lparr>clicked = False, text_entered = ''''\<rparr>
           \<lparr>clicked = False, text_entered = ''''\<rparr>
           (load_target_locations
              (initial_app (Some (Json_list [\<lparr>address = ''Home'', radius = 100\<rparr>])))))) = [] \<and>
   target_location_coords
     (geocode_callback ''Home'' (Placemarks [Some (48, 11)])
        (edit_location py_strip py_int 0 0 \<lparr>clicked = False, text_entered = ''''\<rparr>
           \<lparr>clicked = False, text_entered = ''''\<rparr>
           (load_target_locations
              (initial_app (Some (Json_list [\<lparr>address = ''Home'', radius = 100\<rparr>]))))))
     ''Home'' = Some (48, 11)"
  by (simp add: geocode_callback_def edit_location_def load_target_locations_def
        initial_app_def save_target_locations_def geocode_target_location_def)

text \<open>
  C2 as amended: for every address, in the target list or not, a completion without error
  whose first placemark has a location stores that coordinate under the address; the target
  list is never changed by a completion; a completion with an error, with no placemark or
  with a first placemark without location leaves the state as it is.
\<close>

theorem geocode_callback_stores_any_address:
  "target_location_coords (geocode_callback addr (Placemarks (Some (lat, lon) # ps)) s)
     = (target_location_coords s)(addr \<mapsto> (lat, lon)) \<and>
   target_locations (geocode_callback addr res s) = target_locations s \<and>
   geocode_callback addr Geocode_error s = s \<and>
   geocode_callback addr (Placemarks []) s = s \<and>
   geocode_callback addr (Placemarks (None # ps)) s = s"
proof -
  have stored:
    "target_location_coords (geocode_callback addr (Placemarks (Some (lat, lon) # ps)) s)
       = (target_location_coords s)(addr \<mapsto> (lat, lon))"
    by (simp add: geocode_callback_def Let_def check_target_locations_frame
          split: option.splits prod.splits)
  have zones: "target_locations (geocode_callback addr res s) = target_locations s"
    by (simp add: geocode_callback_def Let_def check_target_locations_frame
          split: geocode_result.splits list.splits option.splits prod.splits)
  have rest: "geocode_callback addr Geocode_error s = s"
    "geocode_callback addr (Placemarks []) s = s"
    "geocode_callback addr (Placemarks (None # ps)) s = s"
    by (simp_all add: geocode_callback_def)
  from stored zones rest show ?thesis by simp
qed

subsection \<open>C3: self-correction\<close>




subsection \<open>C4: the periodic reconciliation of the mute flag\<close>

text \<open>
  C4: one run of \<^verbatim>\<open>mute_sync_callback\<close> sets \<open>is_muted\<close> to the system value read from the
  shell query, changes the title of the toggle when the two differed, and re-arms its own
  timer; every other field of the state is as before, in particular no volume command is
  sent and \<open>inside_target_zone\<close>, the target list and the coordinate map are unchanged. When
  the query raises, nothing but the timer is touched.
\<close>

theorem mute_sync_callback_effect:
  "mute_sync_callback (Some out) s =
     s\<lparr>is_muted := (py_lower (py_strip out) = ''true''),
       mute_item_title :=
         (if is_muted s \<noteq> (py_lower (py_strip out) = ''true'')
          then mute_title_of (py_lower (py_strip out) = ''true'')
          else mute_item_title s),
       mute_sync_timer := True\<rparr> \<and>
   mute_sync_callback None s = s\<lparr>mute_sync_timer := True\<rparr> \<and>
   volume_commands (mute_sync_callback output s) = volume_commands s \<and>
   inside_target_zone (mute_sync_callback output s) = inside_target_zone s \<and>
   target_locations (mute_sync_callback output s) = target_locations s \<and>
   target_location_coords (mute_sync_callback output s) = target_location_coords s"
  by (auto simp: mute_sync_callback_def start_mute_sync_timer_def Let_def split: option.splits)

subsection \<open>C5: zone membership\<close>

text \<open>
  C5: the loop answers true exactly when some target of the list has a resolved coordinate
  and the haversine distance from the position to it is at most its radius. For one target
  with a resolved coordinate the answer is the comparison \<open>distance \<le> radius\<close>: a position at
  exactly the radius is inside, a position one meter further is outside. The loop stops at
  the first target in list order that contains the position: the answer and the geocode
  requests are those of the targets before it, whatever follows it in the list.
\<close>

theorem zone_membership:
  "(fst (currently_inside_any_target coords lat lon ts) \<longleftrightarrow>
      (\<exists>t\<in>set ts. \<exists>tlat tlon. coords (address t) = Some (tlat, tlon) \<and>
         calculate_distance lat lon tlat tlon \<le> real_of_int (radius t))) \<and>
   (coords (address t) = Some (tlat, tlon) \<longrightarrow>
      (fst (currently_inside_any_target coords lat lon [t]) \<longleftrightarrow>
         calculate_distance lat lon tlat tlon \<le> real_of_int (radius t))) \<and>
   (coords (address t) = Some (tlat, tlon) \<and>
    calculate_distance lat lon tlat tlon = real_of_int (radius t) \<longrightarrow>
      fst (currently_inside_any_target coords lat lon [t])) \<and>
   (coords (address t) = Some (tlat, tlon) \<and>
    calculate_distance lat lon tlat tlon = real_of_int (radius t) + 1 \<longrightarrow>
      \<not> fst (currently_inside_any_target coords lat lon [t])) \<and>
   (coords (address t) = Some (tlat, tlon) \<and>
    calculate_distance lat lon tlat tlon \<le> real_of_int (radius t) \<and>
    (\<forall>u\<in>set pre. \<forall>ulat ulon. coords (address u) = Some (ulat, ulon) \<longrightarrow>
       \<not> calculate_distance lat lon ulat ulon \<le> real_of_int (radius u)) \<longrightarrow>
      currently_inside_any_target coords lat lon (pre @ t # post) =
        (True, map address (filter (\<lambda>u. coords (address u) = None) pre)))"
proof (intro conjI impI)
  show "fst (currently_inside_any_target coords lat lon ts) \<longleftrightarrow>
      (\<exists>t\<in>set ts. \<exists>tlat tlon. coords (address t) = Some (tlat, tlon) \<and>
         calculate_distance lat lon tlat tlon \<le> real_of_int (radius t))"
    by (rule inside_any_iff)
next
  assume "coords (address t) = Some (tlat, tlon)"
  then show "fst (currently_inside_any_target coords lat lon [t]) \<longleftrightarrow>
         calculate_distance lat lon tlat tlon \<le> real_of_int (radius t)"
    by simp
next
  assume "coords (address t) = Some (tlat, tlon) \<and>
    calculate_distance lat lon tlat tlon = real_of_int (radius t)"
  then show "fst (currently_inside_any_target coords lat lon [t])"
    by simp
next
  assume "coords (address t) = Some (tlat, tlon) \<and>
    calculate_distance lat lon tlat tlon = real_of_int (radius t) + 1"
  then show "\<not> fst (currently_inside_any_target coords lat lon [t])"
    by simp
next
  assume "coords (address t) = Some (tlat, tlon) \<and>
    calculate_distance lat lon tlat tlon \<le> real_of_int (radius t) \<and>
    (\<forall>u\<in>set pre. \<forall>ulat ulon. coords (address u) = Some (ulat, ulon) \<longrightarrow>
       \<not> calculate_distance lat lon ulat ulon \<le> real_of_int (radius u))"
  then show "currently_inside_any_target coords lat lon (pre @ t # post) =
        (True, map address (filter (\<lambda>u. coords (address u) = None) pre))"
    by (intro inside_any_first_match) auto
qed

text \<open>
  C5 at work from latitude 0, longitude 0. Home lies 100 meters to the east on the equator:
  with radius 100 the position is inside, with radius 99 it is outside. Far lies one degree
  to the east and does not contain the position. In the list Far, Pending, Home, Later the
  loop stops at Home: it has asked for the geocode of Pending and not for that of Later.
\<close>

theorem zone_membership_witness:
  "calculate_distance 0 0 0 (18000 / (pi * 6371000)) = real_of_int 100 \<and>
   fst (currently_inside_any_target
          [''Far'' \<mapsto> (0, 1), ''Home'' \<mapsto> (0, 18000 / (pi * 6371000))] 0 0
          [\<lparr>address = ''Home'', radius = 100\<rparr>]) \<and>
   calculate_distance 0 0 0 (18000 / (pi * 6371000)) = real_of_int 99 + 1 \<and>
   \<not> fst (currently_inside_any_target
          [''Far'' \<mapsto> (0, 1), ''Home'' \<mapsto> (0, 18000 / (pi * 6371000))] 0 0
          [\<lparr>address = ''Home'', radius = 99\<rparr>]) \<and>
   \<not> calculate_distance 0 0 0 1 \<le> real_of_int 100 \<and>
   \<not> fst (currently_inside_any_target
          [''Far'' \<mapsto> (0, 1), ''Home'' \<mapsto> (0, 18000 / (pi * 6371000))] 0 0
          [\<lparr>address = ''Far'', radius = 100\<rparr>, \<lparr>address = ''Pending'', radius = 50\<rparr>]) \<and>
   currently_inside_any_target
          [''Far'' \<mapsto> (0, 1), ''Home'' \<mapsto> (0, 18000 / (pi * 6371000))] 0 0
          ([\<lparr>address = ''Far'', radius = 100\<rparr>, \<lparr>address = ''Pending'', radius = 50\<rparr>] @
           \<lparr>address = ''Home'', radius = 100\<rparr> # [\<lparr>address = ''Later'', radius = 10\<rparr>])
     = (True, [''Pending''])"
proof -
  let ?coords = "[''Far'' \<mapsto> (0::real, 1::real), ''Home'' \<mapsto> (0, 18000 / (pi * 6371000))]"
  note d = hundred_meters_east one_degree_east
  have far: "?coords ''Far'' = Some (0, 1)"
    and home: "?coords ''Home'' = Some (0, 18000 / (pi * 6371000))"
    and pending: "?coords ''Pending'' = None"
    by simp_all
  from zone_membership
         [where coords = ?coords and lat = 0 and lon = 0
            and ts = "[\<lparr>address = ''Far'', radius = 100\<rparr>, \<lparr>address = ''Pending'', radius = 50\<rparr>]"
            and t = "\<lparr>address = ''Home'', radius = 100\<rparr>"
            and tlat = 0 and tlon = "18000 / (pi * 6371000)"
            and pre = "[\<lparr>address = ''Far'', radius = 100\<rparr>, \<lparr>address = ''Pending'', radius = 50\<rparr>]"
            and post = "[\<lparr>address = ''Later'', radius = 10\<rparr>]"]
       zone_membership
         [where coords = ?coords and lat = 0 and lon = 0 and ts = "[]"
            and t = "\<lparr>address = ''Home'', radius = 99\<rparr>"
            and tlat = 0 and tlon = "18000 / (pi * 6371000)" and pre = "[]" and post = "[]"]
  show ?thesis
    using d by (simp only: far home pending) simp
qed

subsection \<open>C6: no automatic transition while monitoring is off\<close>

text \<open>
  C6: while \<open>is_active\<close> is false an evaluation cycle returns the state as it is, and after any
  sequence of position fixes monitoring is still off, no volume command has been added, and
  \<open>is_muted\<close> and \<open>inside_target_zone\<close> are what they were.
\<close>

theorem inactive_engine_idle:
  "\<not> is_active s \<longrightarrow>
     check_target_locations lat lon s = s \<and>
     \<not> is_active (location_updates ls s) \<and>
     volume_commands (location_updates ls s) = volume_commands s \<and>
     is_muted (location_updates ls s) = is_muted s \<and>
     inside_target_zone (location_updates ls s) = inside_target_zone s"
  using location_updates_idle [of s ls] by (simp add: check_inactive)

text \<open>
  C6 at work: monitoring is off, the target Home is resolved to latitude 0, longitude 0, and
  the delegate exists. A fix at Home and a fix one degree away send no command and leave the
  two flags false.
\<close>

theorem inactive_engine_idle_witness:
  "\<not> is_active
       ((geocode_callback ''Home'' (Placemarks [Some (0, 0)])
          (load_target_locations
             (initial_app (Some (Json_list [\<lparr>address = ''Home'', radius = 100\<rparr>])))))
        \<lparr>location_delegate_obj := True\<rparr>) \<and>
   volume_commands
     (location_updates [(0, 0), (0, 1)]
       ((geocode_callback ''Home'' (Placemarks [Some (0, 0)])
          (load_target_locations
             (initial_app (Some (Json_list [\<lparr>address = ''Home'', radius = 100\<rparr>])))))
        \<lparr>location_delegate_obj := True\<rparr>)) = [] \<and>
   \<not> is_muted
     (location_updates [(0, 0), (0, 1)]
       ((geocode_callback ''Home'' (Placemarks [Some (0, 0)])
          (load_target_locations
             (initial_app (Some (Json_list [\<lparr>address = ''Home'', radius = 100\<rparr>])))))
        \<lparr>location_delegate_obj := True\<rparr>)) \<and>
   \<not> inside_target_zone
     (location_updates [(0, 0), (0, 1)]
       ((geocode_callback ''Home'' (Placemarks [Some (0, 0)])
          (load_target_locations
             (initial_app (Some (Json_list [\<lparr>address = ''Home'', radius = 100\<rparr>])))))
        \<lparr>location_delegate_obj := True\<rparr>))"
proof -
  let ?s = "(geocode_callback ''Home'' (Placemarks [Some (0, 0)])
          (load_target_locations
             (initial_app (Some (Json_list [\<lparr>address = ''Home'', radius = 100\<rparr>])))))
        \<lparr>location_delegate_obj := True\<rparr>"
  have s: "\<not> is_active ?s" "volume_commands ?s = []" "\<not> is_muted ?s" "\<not> inside_target_zone ?s"
    by (simp_all add: geocode_callback_def load_target_locations_def initial_app_def
          geocode_target_location_def)
  from inactive_engine_idle [where s = ?s and lat = 0 and lon = 0 and ls = "[(0, 0), (0, 1)]"] s
  show ?thesis
    by simp
qed

subsection \<open>C7: a settings file that is a bare array\<close>

text \<open>
  C7: started on a settings file that is a bare array of locations, the load keeps the array
  as the target list, leaves monitoring off and leaves the check interval at the value that
  \<^verbatim>\<open>__init__\<close> gave it, 300 seconds.
\<close>

theorem load_bare_array:
  "target_locations (load_target_locations (initial_app (Some (Json_list zones)))) = zones \<and>
   is_active (load_target_locations (initial_app (Some (Json_list zones)))) = False \<and>
   location_check_interval (load_target_locations (initial_app (Some (Json_list zones))))
     = location_check_interval (initial_app (Some (Json_list zones))) \<and>
   location_check_interval (load_target_locations (initial_app (Some (Json_list zones)))) = 300"
  by (simp add: load_target_locations_def geocode_all_eq initial_app_def)

subsection \<open>C8: invalid input to the add-location dialogs\<close>

text \<open>
  C8 says that an empty address is rejected with a message to the user. The first test of
  \<^verbatim>\<open>add_location\<close> returns on an empty address as it does when the dialog is cancelled,
  without any alert: in the run below the address is the empty text and neither an alert
  nor a notification has been shown.
\<close>

theorem add_location_empty_address_counterexample:
  "alerts (add_location py_strip py_int \<lparr>clicked = True, text_entered = ''''\<rparr>
             \<lparr>clicked = True, text_entered = ''100''\<rparr> (initial_app None)) = [] \<and>
   notifications (add_location py_strip py_int \<lparr>clicked = True, text_entered = ''''\<rparr>
             \<lparr>clicked = True, text_entered = ''100''\<rparr> (initial_app None)) = []"
  by (simp add: add_location_def initial_app_def py_strip_def)

text \<open>
  C8 as amended, with \<open>strip\<close> for \<^verbatim>\<open>str.strip\<close> and \<open>parse_int\<close> for \<^verbatim>\<open>int\<close>, whatever the two
  do on a text: with an address that is not empty after \<open>strip\<close> and the radius dialog
  confirmed, a radius on which \<open>parse_int\<close> raises and a radius that is not positive each show
  one alert and change nothing else in the state (target list, coordinate map and settings
  file included); an address that is empty after \<open>strip\<close> returns the state unchanged, with
  no message.
\<close>

theorem add_location_invalid_input:
  "(clicked address_response \<and> strip (text_entered address_response) \<noteq> [] \<and>
    clicked radius_response \<and> parse_int (strip (text_entered radius_response)) = None \<longrightarrow>
      add_location strip parse_int address_response radius_response s =
        s\<lparr>alerts := alerts s @ [(''Invalid Input'', ''Radius must be a number'')]\<rparr>) \<and>
   (clicked address_response \<and> strip (text_entered address_response) \<noteq> [] \<and>
    clicked radius_response \<and> parse_int (strip (text_entered radius_response)) = Some r \<and>
    r \<le> 0 \<longrightarrow>
      add_location strip parse_int address_response radius_response s =
        s\<lparr>alerts := alerts s @ [(''Invalid Input'', ''Radius must be a positive number'')]\<rparr>) \<and>
   (strip (text_entered address_response) = [] \<longrightarrow>
      add_location strip parse_int address_response radius_response s = s)"
  by (simp add: add_location_def alert_def)

text \<open>
  C8 as amended, at work on the state before any file is loaded, with ASCII text in the
  dialogs and the ASCII functions for \<open>strip\<close> and \<open>parse_int\<close>: the radius \<open>abc\<close>, the radius
  \<open>-5\<close>, and an address of two spaces.
\<close>

theorem add_location_invalid_input_witness:
  "py_strip (text_entered \<lparr>clicked = True, text_entered = '' Home ''\<rparr>) \<noteq> [] \<and>
   py_int (py_strip (text_entered \<lparr>clicked = True, text_entered = ''abc''\<rparr>)) = None \<and>
   add_location py_strip py_int \<lparr>clicked = True, text_entered = '' Home ''\<rparr>
       \<lparr>clicked = True, text_entered = ''abc''\<rparr> (initial_app None) =
     (initial_app None)\<lparr>alerts := [(''Invalid Input'', ''Radius must be a number'')]\<rparr> \<and>
   py_int (py_strip (text_entered \<lparr>clicked = True, text_entered = ''-5''\<rparr>)) = Some (- 5) \<and>
   add_location py_strip py_int \<lparr>clicked = True, text_entered = '' Home ''\<rparr>
       \<lparr>clicked = True, text_entered = ''-5''\<rparr> (initial_app None) =
     (initial_app None)\<lparr>alerts := [(''Invalid Input'', ''Radius must be a positive number'')]\<rparr> \<and>
   py_strip (text_entered \<lparr>clicked = True, text_entered = ''  ''\<rparr>) = [] \<and>
   add_location py_strip py_int \<lparr>clicked = True, text_entered = ''  ''\<rparr>
       \<lparr>clicked = True, text_entered = ''100''\<rparr> (initial_app None) = initial_app None"
proof -
  have a: "py_strip '' Home '' \<noteq> []" "py_strip ''  '' = []"
    by (simp_all add: py_string_defs)
  have r: "py_int (py_strip ''abc'') = None" "py_int (py_strip ''-5'') = Some (- 5)"
    by (simp_all add: py_string_defs)
  have e: "alerts (initial_app None) = []"
    by (simp add: initial_app_def)
  from add_location_invalid_input
         [where strip = py_strip and parse_int = py_int
            and address_response = "\<lparr>clicked = True, text_entered = '' Home ''\<rparr>"
            and radius_response = "\<lparr>clicked = True, text_entered = ''abc''\<rparr>"
            and s = "initial_app None" and r = 0]
       add_location_invalid_input
         [where strip = py_strip and parse_int = py_int
            and address_response = "\<lparr>clicked = True, text_entered = '' Home ''\<rparr>"
            and radius_response = "\<lparr>clicked = True, text_entered = ''-5''\<rparr>"
            and s = "initial_app None" and r = "- 5"]
       add_location_invalid_input
         [where strip = py_strip and parse_int = py_int
            and address_response = "\<lparr>clicked = True, text_entered = ''  ''\<rparr>"
            and radius_response = "\<lparr>clicked = True, text_entered = ''100''\<rparr>"
            and s = "initial_app None" and r = 0]
  show ?thesis
    by (simp add: a r e)
qed

subsection \<open>C9: no targets configured\<close>

text \<open>
  C9: while monitoring is active and the target list is empty an evaluation cycle returns
  the state as it is, and after any sequence of position fixes no volume command has been
  added and \<open>is_muted\<close> and \<open>inside_target_zone\<close> are what they were: a muted Mac stays muted.
\<close>

theorem no_targets_idle:
  "is_active s \<and> target_locations s = [] \<longrightarrow>
     check_target_locations lat lon s = s \<and>
     volume_commands (location_updates ls s) = volume_commands s \<and>
     is_muted (location_updates ls s) = is_muted s \<and>
     inside_target_zone (location_updates ls s) = inside_target_zone s"
  using location_updates_idle [of s ls] by (simp add: check_no_targets)

text \<open>
  C9 at work: started on a file with monitoring on and no location, with the delegate in
  place, the reconciliation finds the system muted. Two position fixes later the Mac is still
  muted and no command has been sent.
\<close>

theorem no_targets_idle_witness:
  "is_active
     (mute_sync_callback (Some ''true'')
        (load_target_locations
           (initial_app (Some (Json_dict (Some [])
              (Some \<lparr>check_interval = Some 60, is_active_json = Some True\<rparr>)))))
      \<lparr>location_delegate_obj := True\<rparr>) \<and>
   target_locations
     (mute_sync_callback (Some ''true'')
        (load_target_locations
           (initial_app (Some (Json_dict (Some [])
              (Some \<lparr>check_interval = Some 60, is_active_json = Some True\<rparr>)))))
      \<lparr>location_delegate_obj := True\<rparr>) = [] \<and>
   is_muted
     (location_updates [(0, 0), (48, 11)]
       (mute_sync_callback (Some ''true'')
          (load_target_locations
             (initial_app (Some (Json_dict (Some [])
                (Some \<lparr>check_interval = Some 60, is_active_json = Some True\<rparr>)))))
        \<lparr>location_delegate_obj := True\<rparr>)) \<and>
   volume_commands
     (location_updates [(0, 0), (48, 11)]
       (mute_sync_callback (Some ''true'')
          (load_target_locations
             (initial_app (Some (Json_dict (Some [])
                (Some \<lparr>check_interval = Some 60, is_active_json = Some True\<rparr>)))))
        \<lparr>location_delegate_obj := True\<rparr>)) = []"
proof -
  let ?s = "mute_sync_callback (Some ''true'')
        (load_target_locations
           (initial_app (Some (Json_dict (Some [])
              (Some \<lparr>check_interval = Some 60, is_active_json = Some True\<rparr>)))))
      \<lparr>location_delegate_obj := True\<rparr>"
  have s: "is_active ?s" "target_locations ?s = []" "is_muted ?s" "volume_commands ?s = []"
    by (simp_all add: mute_sync_callback_def start_mute_sync_timer_def mute_title_of_def
          load_target_locations_def initial_app_def update_status_def
          start_location_timer_def stop_location_timer_def py_string_defs)
  from no_targets_idle [where s = ?s and lat = 0 and lon = 0 and ls = "[(0, 0), (48, 11)]"] s
  show ?thesis
    by simp
qed

subsection \<open>C10: the check interval on load and in the interval menu\<close>

text \<open>
  C10: loading a settings file that is an object, the check interval becomes 30 when the
  file has no settings or its settings have no \<^verbatim>\<open>check_interval\<close>, and becomes the value of
  \<^verbatim>\<open>check_interval\<close> otherwise, whatever that value is. \<^verbatim>\<open>set_interval_action\<close> with less than
  60 seconds shows an alert and changes nothing else; with 60 seconds or more it sets the
  interval.
\<close>

theorem check_interval_on_load_and_select:
  "location_check_interval
     (load_target_locations (s\<lparr>settings_file := Some (Json_dict locations None)\<rparr>)) = 30 \<and>
   (check_interval st = None \<longrightarrow>
      location_check_interval
        (load_target_locations (s\<lparr>settings_file := Some (Json_dict locations (Some st))\<rparr>))
        = 30) \<and>
   (check_interval st = Some v \<longrightarrow>
      location_check_interval
        (load_target_locations (s\<lparr>settings_file := Some (Json_dict locations (Some st))\<rparr>))
        = v) \<and>
   (seconds < 60 \<longrightarrow>
      set_interval_action label seconds s =
        s\<lparr>alerts := alerts s @
            [(''Invalid Input'',
              ''Interval must be at least 1 minute for optimal battery life.'')]\<rparr>) \<and>
   (60 \<le> seconds \<longrightarrow>
      location_check_interval (set_interval_action label seconds s) = seconds)"
  by (simp add: load_dict_interval set_interval_action_def alert_def Let_def
        save_target_locations_def start_location_timer_def stop_location_timer_def)

text \<open>
  C10 at work: a file without \<^verbatim>\<open>check_interval\<close> gives 30, a file with the value 5 gives 5;
  choosing 30 seconds in the menu leaves the interval at 300 and shows the alert, choosing
  120 seconds sets it.
\<close>

theorem check_interval_on_load_and_select_witness:
  "location_check_interval
     (load_target_locations (initial_app (Some (Json_dict (Some [])
        (Some \<lparr>check_interval = None, is_active_json = Some True\<rparr>))))) = 30 \<and>
   location_check_interval
     (load_target_locations (initial_app (Some (Json_dict (Some [])
        (Some \<lparr>check_interval = Some 5, is_active_json = Some True\<rparr>))))) = 5 \<and>
   (30::int) < 60 \<and>
   location_check_interval (set_interval_action ''30 Sec'' 30 (initial_app None)) = 300 \<and>
   alerts (set_interval_action ''30 Sec'' 30 (initial_app None)) =
     [(''Invalid Input'', ''Interval must be at least 1 minute for optimal battery life.'')] \<and>
   (60::int) \<le> 120 \<and>
   location_check_interval (set_interval_action ''2 Min'' 120 (initial_app None)) = 120"
proof -
  have f: "initial_app (Some x) = (initial_app None)\<lparr>settings_file := Some x\<rparr>" for x
    by (simp add: initial_app_def)
  from check_interval_on_load_and_select
         [where s = "initial_app None" and locations = "Some []"
            and st = "\<lparr>check_interval = None, is_active_json = Some True\<rparr>"
            and v = 0 and seconds = 30 and label = "''30 Sec''"]
       check_interval_on_load_and_select
         [where s = "initial_app None" and locations = "Some []"
            and st = "\<lparr>check_interval = Some 5, is_active_json = Some True\<rparr>"
            and v = 5 and seconds = 120 and label = "''2 Min''"]
  show ?thesis
    by (simp add: f) (simp add: initial_app_def)
qed

end
